theory Spec2Isabelle
  imports Main "HOL-Library.Sublist"
begin

section \<open>The RustProject class of createlib.py\<close>

text \<open>
  The class drives the cargo executable through \<^verbatim>\<open>subprocess.run\<close>, writes one source
  file and removes a directory tree. Everything outside the class (the processes, the
  filesystem, the console) is the world: a log of the events the methods cause, in order,
  and the contents of the files. What the outside answers is an environment of oracles,
  which see the history so far, so the same command may succeed once and fail later.

  In the source the docstrings of \<^verbatim>\<open>write_code\<close> and \<^verbatim>\<open>cleanup\<close> stand at the
  indentation of their \<^verbatim>\<open>def\<close>; the model takes the statements below each docstring as
  the body of the method.
\<close>

subsection \<open>Exceptions, events, world, environment\<close>

text \<open>
  How one \<^verbatim>\<open>subprocess.run\<close> ends: the process ran and exited with a status, the
  executable (or the working directory) was not found, so no process started, or the
  operating system refused for another reason.
\<close>

datatype proc_outcome = Exited int | NotFound | OSFailure

datatype exc =
    CalledProcessError int "string list"
  | FileNotFoundError
  | OSError

datatype event =
    Run "string list" "string option" proc_outcome
  | Print string
  | WriteFile string string bool
  | Rmtree string bool

record world =
  log :: "event list"
  files :: "string \<rightharpoonup> string"

record env =
  run_outcome :: "event list \<Rightarrow> string list \<Rightarrow> string option \<Rightarrow> proc_outcome"
  open_ok :: "event list \<Rightarrow> string \<Rightarrow> bool"
  rmtree_ok :: "event list \<Rightarrow> string \<Rightarrow> bool"
  exc_str :: "exc \<Rightarrow> string"

text \<open>\<^verbatim>\<open>print(s)\<close>.\<close>

definition print :: "string \<Rightarrow> world \<Rightarrow> world" where
  "print s w = w\<lparr>log := log w @ [Print s]\<rparr>"

text \<open>
  \<^verbatim>\<open>subprocess.run(args, check=True, cwd=cwd)\<close>: with \<^verbatim>\<open>check=True\<close> a non-zero exit
  status raises CalledProcessError, which carries the status and the command.
\<close>

definition subprocess_run ::
  "env \<Rightarrow> string list \<Rightarrow> string option \<Rightarrow> world \<Rightarrow> (exc + unit) \<times> world" where
  "subprocess_run E args cwd w =
     (let r = run_outcome E (log w) args cwd;
          w' = w\<lparr>log := log w @ [Run args cwd r]\<rparr>
      in case r of
           Exited c \<Rightarrow> if c = 0 then (Inr (), w') else (Inl (CalledProcessError c args), w')
         | NotFound \<Rightarrow> (Inl FileNotFoundError, w')
         | OSFailure \<Rightarrow> (Inl OSError, w'))"

text \<open>\<^verbatim>\<open>os.path.join\<close> of posixpath: a component that starts with the separator restarts
  the path, and a separator is inserted unless the path so far is empty or ends with one.\<close>

definition join2 :: "string \<Rightarrow> string \<Rightarrow> string" where
  "join2 path b =
     (if b \<noteq> [] \<and> hd b = CHR ''/'' then b
      else if path = [] \<or> last path = CHR ''/'' then path @ b
      else path @ ''/'' @ b)"

definition os_path_join :: "string \<Rightarrow> string list \<Rightarrow> string" where
  "os_path_join a ps = foldl join2 a ps"

text \<open>\<^verbatim>\<open>open(path, "w")\<close> and \<^verbatim>\<open>write(code)\<close>: the file is truncated and holds the text
  written, or the open fails and the error propagates.\<close>

definition write_file :: "env \<Rightarrow> string \<Rightarrow> string \<Rightarrow> world \<Rightarrow> (exc + unit) \<times> world" where
  "write_file E path code w =
     (if open_ok E (log w) path
      then (Inr (), w\<lparr>log := log w @ [WriteFile path code True], files := (files w)(path \<mapsto> code)\<rparr>)
      else (Inl OSError, w\<lparr>log := log w @ [WriteFile path code False]\<rparr>))"

text \<open>\<^verbatim>\<open>shutil.rmtree(p)\<close>: every file at or below \<open>p\<close> is gone, or the call fails.\<close>

definition in_tree :: "string \<Rightarrow> string \<Rightarrow> bool" where
  "in_tree p k = (k = p \<or> prefix (join2 p []) k)"

definition rmtree :: "env \<Rightarrow> string \<Rightarrow> world \<Rightarrow> (exc + unit) \<times> world" where
  "rmtree E p w =
     (if rmtree_ok E (log w) p
      then (Inr (), w\<lparr>log := log w @ [Rmtree p True],
                       files := (\<lambda>k. if in_tree p k then None else files w k)\<rparr>)
      else (Inl OSError, w\<lparr>log := log w @ [Rmtree p False]\<rparr>))"

subsection \<open>The object and its methods\<close>

record rust_project =
  project_name :: string
  project_type :: string
  project_path :: "string option"
  dependencies :: "string list"

text \<open>\<^verbatim>\<open>__init__\<close>: no check of the type; a missing or empty dependency list is the empty list.\<close>

definition init :: "string \<Rightarrow> string \<Rightarrow> string list option \<Rightarrow> rust_project" where
  "init name ty deps =
     \<lparr>project_name = name, project_type = ty, project_path = None,
      dependencies = (case deps of None \<Rightarrow> [] | Some ds \<Rightarrow> if ds = [] then [] else ds)\<rparr>"

text \<open>\<^verbatim>\<open>_check_cargo_installed\<close>: only FileNotFoundError is caught.\<close>

definition check_cargo_installed :: "env \<Rightarrow> world \<Rightarrow> (exc + bool) \<times> world" where
  "check_cargo_installed E w =
     (case subprocess_run E [''cargo'', ''--version''] None w of
        (Inl FileNotFoundError, w') \<Rightarrow>
          (Inr False, print ''Error: Cargo is not installed. Please install Rust and Cargo.'' w')
      | (Inl e, w') \<Rightarrow> (Inl e, w')
      | (Inr u, w') \<Rightarrow> (Inr True, w'))"

text \<open>The \<^verbatim>\<open>for\<close> loop of \<^verbatim>\<open>_add_dependencies\<close>: an exception leaves the loop.\<close>

fun add_loop :: "env \<Rightarrow> string option \<Rightarrow> string list \<Rightarrow> world \<Rightarrow> (exc + unit) \<times> world" where
  "add_loop E cwd [] w = (Inr (), w)"
| "add_loop E cwd (d # ds) w =
     (case subprocess_run E [''cargo'', ''add'', d] cwd w of
        (Inl e, w') \<Rightarrow> (Inl e, w')
      | (Inr u, w') \<Rightarrow> add_loop E cwd ds w')"

text \<open>\<^verbatim>\<open>_add_dependencies\<close>: CalledProcessError is caught and printed, anything else
  propagates.\<close>

definition add_dependencies ::
  "env \<Rightarrow> rust_project \<Rightarrow> world \<Rightarrow> exc option \<times> rust_project \<times> world" where
  "add_dependencies E p w =
     (if dependencies p = [] then (None, p, w)
      else case add_loop E (project_path p) (dependencies p) w of
             (Inl (CalledProcessError c a), w') \<Rightarrow>
               (None, p, print (''Error adding dependency: '' @ exc_str E (CalledProcessError c a)) w')
           | (Inl e, w') \<Rightarrow> (Some e, p, w')
           | (Inr u, w') \<Rightarrow> (None, p, w'))"

text \<open>The \<^verbatim>\<open>except subprocess.CalledProcessError\<close> clause of \<^verbatim>\<open>create_project\<close>.\<close>

definition create_except ::
  "env \<Rightarrow> rust_project \<Rightarrow> exc \<Rightarrow> world \<Rightarrow> exc option \<times> rust_project \<times> world" where
  "create_except E p e w =
     (case e of
        CalledProcessError c a \<Rightarrow>
          (None, p, print (''Error creating new Rust '' @ project_type p @ '' project: '' @ exc_str E e) w)
      | _ \<Rightarrow> (Some e, p, w))"

definition project_type_flag :: "rust_project \<Rightarrow> string" where
  "project_type_flag p = (if project_type p = ''lib'' then ''--lib'' else ''--bin'')"

definition create_project ::
  "env \<Rightarrow> rust_project \<Rightarrow> world \<Rightarrow> exc option \<times> rust_project \<times> world" where
  "create_project E p w =
     (case check_cargo_installed E w of
        (Inl e, w1) \<Rightarrow> (Some e, p, w1)
      | (Inr ok, w1) \<Rightarrow>
          if \<not> ok then (None, p, w1)
          else (case subprocess_run E [''cargo'', ''new'', project_type_flag p, project_name p] None w1 of
                  (Inl e, w2) \<Rightarrow> create_except E p e w2
                | (Inr u, w2) \<Rightarrow>
                    (case add_dependencies E (p\<lparr>project_path := Some (project_name p)\<rparr>) w2 of
                       (Some e, p', w3) \<Rightarrow> create_except E p' e w3
                     | (None, p', w3) \<Rightarrow> (None, p', w3))))"

definition src_file_name :: "rust_project \<Rightarrow> string" where
  "src_file_name p = (if project_type p = ''lib'' then ''lib.rs'' else ''main.rs'')"

definition write_code ::
  "env \<Rightarrow> rust_project \<Rightarrow> string \<Rightarrow> world \<Rightarrow> exc option \<times> rust_project \<times> world" where
  "write_code E p rust_code w =
     (case project_path p of
        None \<Rightarrow> (None, p, print ''Error: Rust project not created.'' w)
      | Some d \<Rightarrow>
          (case write_file E (os_path_join d [''src'', src_file_name p]) rust_code w of
             (Inl e, w') \<Rightarrow> (Some e, p, w')
           | (Inr u, w') \<Rightarrow> (None, p, w')))"

definition build_and_run ::
  "env \<Rightarrow> rust_project \<Rightarrow> world \<Rightarrow> exc option \<times> rust_project \<times> world" where
  "build_and_run E p w =
     (case project_path p of
        None \<Rightarrow> (None, p, print ''Error: Rust project not created.'' w)
      | Some d \<Rightarrow>
          (case check_cargo_installed E w of
             (Inl e, w1) \<Rightarrow> (Some e, p, w1)
           | (Inr ok, w1) \<Rightarrow>
               if \<not> ok then (None, p, w1)
               else (case subprocess_run E [''cargo'', ''run''] (Some d) w1 of
                       (Inl (CalledProcessError c a), w2) \<Rightarrow>
                         (None, p, print (''Error running Rust code: '' @ exc_str E (CalledProcessError c a)) w2)
                     | (Inl e, w2) \<Rightarrow> (Some e, p, w2)
                     | (Inr u, w2) \<Rightarrow> (None, p, w2))))"

definition cleanup ::
  "env \<Rightarrow> rust_project \<Rightarrow> world \<Rightarrow> exc option \<times> rust_project \<times> world" where
  "cleanup E p w =
     (case project_path p of
        None \<Rightarrow> (None, p, w)
      | Some d \<Rightarrow>
          (case rmtree E d w of
             (Inl e, w') \<Rightarrow> (Some e, p, w')
           | (Inr u, w') \<Rightarrow> (None, p\<lparr>project_path := None\<rparr>, w')))"

subsection \<open>Sequences of method calls\<close>

datatype method_call =
    CheckCargoInstalled
  | CreateProject
  | AddDependencies
  | WriteCode string
  | BuildAndRun
  | Cleanup

fun call :: "env \<Rightarrow> method_call \<Rightarrow> rust_project \<Rightarrow> world \<Rightarrow> exc option \<times> rust_project \<times> world" where
  "call E CheckCargoInstalled p w =
     (case check_cargo_installed E w of (Inl e, w') \<Rightarrow> (Some e, p, w') | (Inr b, w') \<Rightarrow> (None, p, w'))"
| "call E CreateProject p w = create_project E p w"
| "call E AddDependencies p w = add_dependencies E p w"
| "call E (WriteCode c) p w = write_code E p c w"
| "call E BuildAndRun p w = build_and_run E p w"
| "call E Cleanup p w = cleanup E p w"

text \<open>A caller that goes on after an exception: the object and the world are as the
  failed call left them.\<close>

fun calls :: "env \<Rightarrow> method_call list \<Rightarrow> rust_project \<Rightarrow> world \<Rightarrow> rust_project \<times> world" where
  "calls E [] p w = (p, w)"
| "calls E (m # ms) p w = (case call E m p w of (r, p', w') \<Rightarrow> calls E ms p' w')"

text \<open>What the log says about creation: the last successful \<^verbatim>\<open>cargo new\<close> is not
  followed by a completed removal.\<close>

fun new_succeeded :: "event \<Rightarrow> bool" where
  "new_succeeded (Run args cwd r) = (take 2 args = [''cargo'', ''new''] \<and> r = Exited 0)"
| "new_succeeded _ = False"

fun removal_done :: "event \<Rightarrow> bool" where
  "removal_done (Rmtree d ok) = ok"
| "removal_done _ = False"

definition created_live :: "event list \<Rightarrow> bool" where
  "created_live evs =
     foldl (\<lambda>b ev. if new_succeeded ev then True else if removal_done ev then False else b) False evs"

text \<open>The events a call added to the log.\<close>

definition emitted :: "world \<Rightarrow> world \<Rightarrow> event list" where
  "emitted w w' = drop (length (log w)) (log w')"

text \<open>The events of dependency additions that succeed, in the order of the list.\<close>

definition add_events :: "string option \<Rightarrow> string list \<Rightarrow> event list" where
  "add_events cwd ds = map (\<lambda>d. Run [''cargo'', ''add'', d] cwd (Exited 0)) ds"

text \<open>An event that started a process.\<close>

fun spawned :: "event \<Rightarrow> bool" where
  "spawned (Run args cwd (Exited c)) = True"
| "spawned _ = False"

fun is_add :: "event \<Rightarrow> bool" where
  "is_add (Run args cwd r) = (take 2 args = [''cargo'', ''add''])"
| "is_add _ = False"

fun is_print :: "event \<Rightarrow> bool" where
  "is_print (Print s) = True"
| "is_print _ = False"

fun is_run :: "event \<Rightarrow> bool" where
  "is_run (Run args cwd r) = True"
| "is_run _ = False"

fun is_fs :: "event \<Rightarrow> bool" where
  "is_fs (WriteFile f c ok) = True"
| "is_fs (Rmtree d ok) = True"
| "is_fs _ = False"

text \<open>Concrete environments: the outcome of a command depends on the command alone, the
  filesystem never refuses, and an exception is rendered by a fixed text.\<close>

definition env_with :: "(string list \<Rightarrow> proc_outcome) \<Rightarrow> env" where
  "env_with f =
     \<lparr>run_outcome = (\<lambda>h args cwd. f args),
      open_ok = (\<lambda>h path. True),
      rmtree_ok = (\<lambda>h d. True),
      exc_str = (\<lambda>e. case e of CalledProcessError c a \<Rightarrow> ''non-zero exit status''
                             | FileNotFoundError \<Rightarrow> ''No such file or directory''
                             | OSError \<Rightarrow> ''OSError'')\<rparr>"

text \<open>Cargo is installed and every command succeeds, except adding the dependency
  \<^verbatim>\<open>bad\<close>.\<close>

definition env_ok :: env where
  "env_ok = env_with (\<lambda>args. if args = [''cargo'', ''add'', ''bad''] then Exited 101 else Exited 0)"

text \<open>Cargo is not on the search path.\<close>

definition env_missing :: env where
  "env_missing = env_with (\<lambda>args. NotFound)"

text \<open>Cargo is installed and \<^verbatim>\<open>cargo new\<close> exits with status 101.\<close>

definition env_new_fails :: env where
  "env_new_fails = env_with (\<lambda>args. if take 2 args = [''cargo'', ''new''] then Exited 101 else Exited 0)"

definition w0 :: world where
  "w0 = \<lparr>log = [], files = Map.empty\<rparr>"

section \<open>Properties\<close>

subsection \<open>What the dependency loop adds to the log\<close>

lemma subprocess_run_eq:
  "subprocess_run E args cwd w =
     (case run_outcome E (log w) args cwd of
        Exited c \<Rightarrow> if c = 0 then Inr () else Inl (CalledProcessError c args)
      | NotFound \<Rightarrow> Inl FileNotFoundError
      | OSFailure \<Rightarrow> Inl OSError,
      w\<lparr>log := log w @ [Run args cwd (run_outcome E (log w) args cwd)]\<rparr>)"
  by (simp add: subprocess_run_def Let_def split: proc_outcome.splits)

lemma add_loop_emits:
  "add_loop E cwd ds w = (r, w') \<Longrightarrow>
     \<exists>evs. w' = w\<lparr>log := log w @ evs\<rparr> \<and> list_all is_add evs"
proof (induction ds arbitrary: w)
  case Nil
  then have "w' = w\<lparr>log := log w @ []\<rparr>" by simp
  then show ?case by (intro exI [of _ "[]"]) simp
next
  case (Cons d ds)
  let ?w1 = "w\<lparr>log := log w @ [Run [''cargo'', ''add'', d] cwd (run_outcome E (log w) [''cargo'', ''add'', d] cwd)]\<rparr>"
  show ?case
  proof (cases "fst (subprocess_run E [''cargo'', ''add'', d] cwd w)")
    case (Inl e)
    with Cons.prems have "w' = ?w1"
      by (simp add: subprocess_run_eq split: proc_outcome.splits if_splits)
    then show ?thesis by (intro exI [of _ "[Run [''cargo'', ''add'', d] cwd (run_outcome E (log w) [''cargo'', ''add'', d] cwd)]"]) simp
  next
    case (Inr u)
    with Cons.prems have "add_loop E cwd ds ?w1 = (r, w')"
      by (simp add: subprocess_run_eq split: proc_outcome.splits if_splits)
    from Cons.IH [OF this] obtain evs where "w' = ?w1\<lparr>log := log ?w1 @ evs\<rparr>" "list_all is_add evs"
      by blast
    then show ?thesis
      by (intro exI [of _ "Run [''cargo'', ''add'', d] cwd (run_outcome E (log w) [''cargo'', ''add'', d] cwd) # evs"]) simp
  qed
qed

lemma add_dependencies_emits:
  assumes "add_dependencies E p w = (r, p', w')"
  shows "p' = p \<and> (\<exists>evs. w' = w\<lparr>log := log w @ evs\<rparr> \<and> list_all (\<lambda>ev. is_add ev \<or> is_print ev) evs)"
proof (cases "dependencies p = []")
  case True
  with assms have "p' = p" "w' = w\<lparr>log := log w @ []\<rparr>" by (simp_all add: add_dependencies_def)
  then show ?thesis by (intro conjI exI [of _ "[]"]) simp_all
next
  case False
  obtain r1 w1 where l: "add_loop E (project_path p) (dependencies p) w = (r1, w1)"
    by (cases "add_loop E (project_path p) (dependencies p) w")
  from add_loop_emits [OF l] obtain evs where evs: "w1 = w\<lparr>log := log w @ evs\<rparr>" "list_all is_add evs"
    by blast
  have a: "list_all (\<lambda>ev. is_add ev \<or> is_print ev) evs"
    using evs(2) by (simp add: list_all_iff)
  show ?thesis
  proof (cases r1)
    case (Inr u)
    with assms False l evs a show ?thesis by (auto simp: add_dependencies_def)
  next
    case (Inl e)
    show ?thesis
    proof (cases e)
      case (CalledProcessError c args)
      with assms False l Inl have "p' = p"
        "w' = w\<lparr>log := log w @ (evs @ [Print (''Error adding dependency: '' @ exc_str E (CalledProcessError c args))])\<rparr>"
        by (simp_all add: add_dependencies_def print_def evs(1))
      with a show ?thesis by (intro conjI exI [of _ "evs @ [Print (''Error adding dependency: '' @ exc_str E (CalledProcessError c args))]"]) simp_all
    next
      case FileNotFoundError
      with assms False l Inl evs a show ?thesis by (auto simp: add_dependencies_def)
    next
      case OSError
      with assms False l Inl evs a show ?thesis by (auto simp: add_dependencies_def)
    qed
  qed
qed

subsection \<open>The toolchain probe\<close>

lemma subprocess_run_log:
  "subprocess_run E args cwd w = (r, w') \<Longrightarrow>
     w' = w\<lparr>log := log w @ [Run args cwd (run_outcome E (log w) args cwd)]\<rparr>"
  by (auto simp: subprocess_run_def Let_def split: proc_outcome.splits if_splits)

text \<open>
  C9: \<^verbatim>\<open>_check_cargo_installed\<close> returns False exactly when the executable cannot be
  located, and then it has printed its diagnostic and raised nothing; a non-zero exit of
  the version query, or another failure, propagates as an exception; when the query
  succeeds the method returns True.
\<close>

theorem check_cargo_installed_outcomes:
  "(fst (check_cargo_installed E w) = Inr False
      \<longleftrightarrow> run_outcome E (log w) [''cargo'', ''--version''] None = NotFound)
   \<and> (run_outcome E (log w) [''cargo'', ''--version''] None = NotFound \<longrightarrow>
        check_cargo_installed E w =
          (Inr False, w\<lparr>log := log w @ [Run [''cargo'', ''--version''] None NotFound,
              Print ''Error: Cargo is not installed. Please install Rust and Cargo.'']\<rparr>))
   \<and> (\<forall>c. run_outcome E (log w) [''cargo'', ''--version''] None = Exited c \<and> c \<noteq> 0 \<longrightarrow>
        check_cargo_installed E w =
          (Inl (CalledProcessError c [''cargo'', ''--version'']),
           w\<lparr>log := log w @ [Run [''cargo'', ''--version''] None (Exited c)]\<rparr>))
   \<and> (run_outcome E (log w) [''cargo'', ''--version''] None = OSFailure \<longrightarrow>
        check_cargo_installed E w =
          (Inl OSError, w\<lparr>log := log w @ [Run [''cargo'', ''--version''] None OSFailure]\<rparr>))
   \<and> (run_outcome E (log w) [''cargo'', ''--version''] None = Exited 0 \<longrightarrow>
        check_cargo_installed E w =
          (Inr True, w\<lparr>log := log w @ [Run [''cargo'', ''--version''] None (Exited 0)]\<rparr>))"
  by (cases "run_outcome E (log w) [''cargo'', ''--version''] None")
     (simp_all add: check_cargo_installed_def subprocess_run_def print_def Let_def)

theorem check_cargo_installed_outcomes_witness:
  "fst (check_cargo_installed env_missing w0) = Inr False
   \<and> check_cargo_installed env_missing w0 =
          (Inr False, w0\<lparr>log := [Run [''cargo'', ''--version''] None NotFound,
              Print ''Error: Cargo is not installed. Please install Rust and Cargo.'']\<rparr>)
   \<and> check_cargo_installed (env_with (\<lambda>a. Exited 1)) w0 =
          (Inl (CalledProcessError 1 [''cargo'', ''--version'']),
           w0\<lparr>log := [Run [''cargo'', ''--version''] None (Exited 1)]\<rparr>)
   \<and> check_cargo_installed (env_with (\<lambda>a. OSFailure)) w0 =
          (Inl OSError, w0\<lparr>log := [Run [''cargo'', ''--version''] None OSFailure]\<rparr>)
   \<and> check_cargo_installed env_ok w0 =
          (Inr True, w0\<lparr>log := [Run [''cargo'', ''--version''] None (Exited 0)]\<rparr>)"
  using check_cargo_installed_outcomes [of env_missing w0]
        check_cargo_installed_outcomes [of "env_with (\<lambda>a. Exited 1)" w0]
        check_cargo_installed_outcomes [of "env_with (\<lambda>a. OSFailure)" w0]
        check_cargo_installed_outcomes [of env_ok w0]
  by (simp add: env_missing_def env_ok_def env_with_def w0_def)

lemma check_cargo_installed_eq:
  "check_cargo_installed E w =
     (case run_outcome E (log w) [''cargo'', ''--version''] None of
        Exited c \<Rightarrow>
          if c = 0 then (Inr True, w\<lparr>log := log w @ [Run [''cargo'', ''--version''] None (Exited 0)]\<rparr>)
          else (Inl (CalledProcessError c [''cargo'', ''--version'']),
                w\<lparr>log := log w @ [Run [''cargo'', ''--version''] None (Exited c)]\<rparr>)
      | NotFound \<Rightarrow>
          (Inr False, w\<lparr>log := log w @ [Run [''cargo'', ''--version''] None NotFound,
              Print ''Error: Cargo is not installed. Please install Rust and Cargo.'']\<rparr>)
      | OSFailure \<Rightarrow>
          (Inl OSError, w\<lparr>log := log w @ [Run [''cargo'', ''--version''] None OSFailure]\<rparr>))"
  by (cases "run_outcome E (log w) [''cargo'', ''--version''] None")
     (simp_all add: check_cargo_installed_def subprocess_run_def print_def Let_def)

lemma emitted_append [simp]: "emitted w (w\<lparr>log := log w @ evs\<rparr>) = evs"
  by (simp add: emitted_def)

lemma emitted_self [simp]: "emitted w w = []"
  by (simp add: emitted_def)

subsection \<open>The methods by the outcomes of their commands\<close>

lemma add_dependencies_no_cpe:
  "add_dependencies E p w = (Some e, p', w') \<Longrightarrow> create_except E p' e w' = (Some e, p', w')"
  by (cases e)
     (auto simp: add_dependencies_def create_except_def
           split: if_splits prod.splits sum.splits exc.splits)

lemma create_project_eq:
  "create_project E p w =
     (case run_outcome E (log w) [''cargo'', ''--version''] None of
        Exited c \<Rightarrow>
          if c \<noteq> 0
          then (Some (CalledProcessError c [''cargo'', ''--version'']), p,
                w\<lparr>log := log w @ [Run [''cargo'', ''--version''] None (Exited c)]\<rparr>)
          else (case run_outcome E (log w @ [Run [''cargo'', ''--version''] None (Exited 0)])
                       [''cargo'', ''new'', project_type_flag p, project_name p] None of
                  Exited c' \<Rightarrow>
                    if c' = 0
                    then add_dependencies E (p\<lparr>project_path := Some (project_name p)\<rparr>)
                           (w\<lparr>log := log w @ [Run [''cargo'', ''--version''] None (Exited 0),
                              Run [''cargo'', ''new'', project_type_flag p, project_name p] None (Exited 0)]\<rparr>)
                    else (None, p,
                          w\<lparr>log := log w @ [Run [''cargo'', ''--version''] None (Exited 0),
                             Run [''cargo'', ''new'', project_type_flag p, project_name p] None (Exited c'),
                             Print (''Error creating new Rust '' @ project_type p @ '' project: '' @
                               exc_str E (CalledProcessError c' [''cargo'', ''new'', project_type_flag p, project_name p]))]\<rparr>)
                | NotFound \<Rightarrow>
                    (Some FileNotFoundError, p,
                     w\<lparr>log := log w @ [Run [''cargo'', ''--version''] None (Exited 0),
                        Run [''cargo'', ''new'', project_type_flag p, project_name p] None NotFound]\<rparr>)
                | OSFailure \<Rightarrow>
                    (Some OSError, p,
                     w\<lparr>log := log w @ [Run [''cargo'', ''--version''] None (Exited 0),
                        Run [''cargo'', ''new'', project_type_flag p, project_name p] None OSFailure]\<rparr>))
      | NotFound \<Rightarrow>
          (None, p, w\<lparr>log := log w @ [Run [''cargo'', ''--version''] None NotFound,
             Print ''Error: Cargo is not installed. Please install Rust and Cargo.'']\<rparr>)
      | OSFailure \<Rightarrow>
          (Some OSError, p, w\<lparr>log := log w @ [Run [''cargo'', ''--version''] None OSFailure]\<rparr>))"
proof (cases "run_outcome E (log w) [''cargo'', ''--version''] None")
  case NotFound
  then show ?thesis by (simp add: create_project_def check_cargo_installed_eq)
next
  case OSFailure
  then show ?thesis by (simp add: create_project_def check_cargo_installed_eq)
next
  case (Exited c)
  show ?thesis
  proof (cases "c = 0")
    case False
    with Exited show ?thesis by (simp add: create_project_def check_cargo_installed_eq)
  next
    case True
    let ?w1 = "w\<lparr>log := log w @ [Run [''cargo'', ''--version''] None (Exited 0)]\<rparr>"
    let ?new = "[''cargo'', ''new'', project_type_flag p, project_name p]"
    have c1: "create_project E p w =
        (case subprocess_run E ?new None ?w1 of
           (Inl e, w2) \<Rightarrow> create_except E p e w2
         | (Inr u, w2) \<Rightarrow>
            (case add_dependencies E (p\<lparr>project_path := Some (project_name p)\<rparr>) w2 of
               (Some e, p', w3) \<Rightarrow> create_except E p' e w3
             | (None, p', w3) \<Rightarrow> (None, p', w3)))"
      using Exited True by (simp add: create_project_def check_cargo_installed_eq)
    show ?thesis
    proof (cases "run_outcome E (log ?w1) ?new None")
      case NotFound
      with Exited True show ?thesis
        by (simp add: c1 subprocess_run_eq create_except_def)
    next
      case OSFailure
      with Exited True show ?thesis
        by (simp add: c1 subprocess_run_eq create_except_def)
    next
      case (Exited c')
      note new = this
      show ?thesis
      proof (cases "c' = 0")
        case False
        with new \<open>run_outcome E (log w) [''cargo'', ''--version''] None = Exited c\<close> True show ?thesis
          by (simp add: c1 subprocess_run_eq create_except_def print_def)
      next
        case c0: True
        let ?w2 = "w\<lparr>log := log w @ [Run [''cargo'', ''--version''] None (Exited 0), Run ?new None (Exited 0)]\<rparr>"
        obtain r p' w3 where ad: "add_dependencies E (p\<lparr>project_path := Some (project_name p)\<rparr>) ?w2 = (r, p', w3)"
          by (cases "add_dependencies E (p\<lparr>project_path := Some (project_name p)\<rparr>) ?w2") 
        have "create_project E p w = (r, p', w3)"
        proof (cases r)
          case None
          with ad new c0 show ?thesis by (simp add: c1 subprocess_run_eq)
        next
          case (Some e)
          with ad new c0 add_dependencies_no_cpe [of E _ ?w2 e p' w3] show ?thesis
            by (simp add: c1 subprocess_run_eq)
        qed
        with ad new c0 \<open>run_outcome E (log w) [''cargo'', ''--version''] None = Exited c\<close> True
        show ?thesis by simp
      qed
    qed
  qed
qed

lemma build_and_run_eq:
  "build_and_run E p w =
     (case project_path p of
        None \<Rightarrow> (None, p, w\<lparr>log := log w @ [Print ''Error: Rust project not created.'']\<rparr>)
      | Some d \<Rightarrow>
         (case run_outcome E (log w) [''cargo'', ''--version''] None of
            Exited c \<Rightarrow>
              if c \<noteq> 0
              then (Some (CalledProcessError c [''cargo'', ''--version'']), p,
                    w\<lparr>log := log w @ [Run [''cargo'', ''--version''] None (Exited c)]\<rparr>)
              else (case run_outcome E (log w @ [Run [''cargo'', ''--version''] None (Exited 0)])
                           [''cargo'', ''run''] (Some d) of
                      Exited c' \<Rightarrow>
                        if c' = 0
                        then (None, p, w\<lparr>log := log w @ [Run [''cargo'', ''--version''] None (Exited 0),
                                Run [''cargo'', ''run''] (Some d) (Exited 0)]\<rparr>)
                        else (None, p, w\<lparr>log := log w @ [Run [''cargo'', ''--version''] None (Exited 0),
                                Run [''cargo'', ''run''] (Some d) (Exited c'),
                                Print (''Error running Rust code: '' @
                                  exc_str E (CalledProcessError c' [''cargo'', ''run'']))]\<rparr>)
                    | NotFound \<Rightarrow>
                        (Some FileNotFoundError, p,
                         w\<lparr>log := log w @ [Run [''cargo'', ''--version''] None (Exited 0),
                            Run [''cargo'', ''run''] (Some d) NotFound]\<rparr>)
                    | OSFailure \<Rightarrow>
                        (Some OSError, p,
                         w\<lparr>log := log w @ [Run [''cargo'', ''--version''] None (Exited 0),
                            Run [''cargo'', ''run''] (Some d) OSFailure]\<rparr>))
          | NotFound \<Rightarrow>
              (None, p, w\<lparr>log := log w @ [Run [''cargo'', ''--version''] None NotFound,
                 Print ''Error: Cargo is not installed. Please install Rust and Cargo.'']\<rparr>)
          | OSFailure \<Rightarrow>
              (Some OSError, p, w\<lparr>log := log w @ [Run [''cargo'', ''--version''] None OSFailure]\<rparr>)))"
  by (simp add: build_and_run_def check_cargo_installed_eq subprocess_run_eq print_def
           split: option.splits proc_outcome.splits)

subsection \<open>Calls on a project that is not created\<close>

text \<open>
  C5: while \<^verbatim>\<open>project_path\<close> is unset, \<^verbatim>\<open>write_code\<close> and \<^verbatim>\<open>build_and_run\<close> print
  their diagnostic and return: the object is unchanged, no file is written, and the one
  event added to the log is the printed line, so no process is invoked and the filesystem
  is not touched.
\<close>

theorem not_created_no_effect:
  "project_path p = None \<Longrightarrow>
     write_code E p code w = (None, p, w\<lparr>log := log w @ [Print ''Error: Rust project not created.'']\<rparr>)
     \<and> build_and_run E p w = (None, p, w\<lparr>log := log w @ [Print ''Error: Rust project not created.'']\<rparr>)
     \<and> files (snd (snd (write_code E p code w))) = files w
     \<and> files (snd (snd (build_and_run E p w))) = files w
     \<and> \<not> list_ex (\<lambda>ev. is_run ev \<or> is_fs ev) (emitted w (snd (snd (write_code E p code w))))
     \<and> \<not> list_ex (\<lambda>ev. is_run ev \<or> is_fs ev) (emitted w (snd (snd (build_and_run E p w))))"
  by (simp add: write_code_def build_and_run_def print_def)

theorem not_created_no_effect_witness:
  "write_code env_ok (init ''demo'' ''lib'' None) ''fn main() {}'' w0
     = (None, init ''demo'' ''lib'' None, w0\<lparr>log := [Print ''Error: Rust project not created.'']\<rparr>)
   \<and> build_and_run env_ok (init ''demo'' ''lib'' None) w0
     = (None, init ''demo'' ''lib'' None, w0\<lparr>log := [Print ''Error: Rust project not created.'']\<rparr>)"
  using not_created_no_effect [of "init ''demo'' ''lib'' None" env_ok "''fn main() {}''" w0]
  by (simp add: init_def w0_def)

subsection \<open>Creation without the toolchain\<close>

text \<open>
  C8: when the cargo executable is absent from the search path, the probe returns False,
  and \<^verbatim>\<open>create_project\<close> returns after the probe's diagnostic: the probe is the only
  command attempted, no process is started, and \<^verbatim>\<open>project_path\<close> is as it was.
\<close>

theorem create_project_cargo_missing:
  "run_outcome E (log w) [''cargo'', ''--version''] None = NotFound \<Longrightarrow>
     fst (check_cargo_installed E w) = Inr False
     \<and> create_project E p w =
         (None, p, w\<lparr>log := log w @ [Run [''cargo'', ''--version''] None NotFound,
            Print ''Error: Cargo is not installed. Please install Rust and Cargo.'']\<rparr>)
     \<and> \<not> list_ex spawned (emitted w (snd (snd (create_project E p w))))
     \<and> project_path (fst (snd (create_project E p w))) = project_path p"
  by (simp add: create_project_def check_cargo_installed_eq)

theorem create_project_cargo_missing_witness:
  "fst (check_cargo_installed env_missing w0) = Inr False
   \<and> create_project env_missing (init ''demo'' ''lib'' (Some [''serde''])) w0 =
         (None, init ''demo'' ''lib'' (Some [''serde'']),
          w0\<lparr>log := [Run [''cargo'', ''--version''] None NotFound,
            Print ''Error: Cargo is not installed. Please install Rust and Cargo.'']\<rparr>)
   \<and> project_path (fst (snd (create_project env_missing (init ''demo'' ''lib'' (Some [''serde''])) w0))) = None"
  using create_project_cargo_missing [of env_missing w0 "init ''demo'' ''lib'' (Some [''serde''])"]
  by (simp add: env_missing_def env_with_def w0_def init_def)

subsection \<open>Creation when the initialization fails\<close>

text \<open>
  C4: when \<^verbatim>\<open>cargo new\<close> exits with a non-zero status, \<^verbatim>\<open>create_project\<close> prints a
  diagnostic that contains the project type and the text of the error, leaves the object
  (so \<^verbatim>\<open>project_path\<close>) as it was, and runs no \<^verbatim>\<open>cargo add\<close>. A \<^verbatim>\<open>cargo add\<close> among
  the commands of \<^verbatim>\<open>create_project\<close> means that the probe and \<^verbatim>\<open>cargo new\<close> both
  succeeded, and when they do, the rest of \<^verbatim>\<open>create_project\<close> is \<^verbatim>\<open>_add_dependencies\<close>
  on the object with its path set.
\<close>

theorem create_project_new_fails:
  "(run_outcome E (log w) [''cargo'', ''--version''] None = Exited 0
    \<and> run_outcome E (log w @ [Run [''cargo'', ''--version''] None (Exited 0)])
          [''cargo'', ''new'', project_type_flag p, project_name p] None = Exited c
    \<and> c \<noteq> 0 \<longrightarrow>
      create_project E p w =
        (None, p,
         w\<lparr>log := log w @ [Run [''cargo'', ''--version''] None (Exited 0),
            Run [''cargo'', ''new'', project_type_flag p, project_name p] None (Exited c),
            Print (''Error creating new Rust '' @ project_type p @ '' project: '' @
              exc_str E (CalledProcessError c [''cargo'', ''new'', project_type_flag p, project_name p]))]\<rparr>)
      \<and> sublist (project_type p)
           (''Error creating new Rust '' @ project_type p @ '' project: '' @
              exc_str E (CalledProcessError c [''cargo'', ''new'', project_type_flag p, project_name p]))
      \<and> sublist (exc_str E (CalledProcessError c [''cargo'', ''new'', project_type_flag p, project_name p]))
           (''Error creating new Rust '' @ project_type p @ '' project: '' @
              exc_str E (CalledProcessError c [''cargo'', ''new'', project_type_flag p, project_name p]))
      \<and> project_path (fst (snd (create_project E p w))) = project_path p
      \<and> \<not> list_ex is_add (emitted w (snd (snd (create_project E p w)))))
   \<and> (list_ex is_add (emitted w (snd (snd (create_project E p w)))) \<longrightarrow>
        run_outcome E (log w) [''cargo'', ''--version''] None = Exited 0
        \<and> run_outcome E (log w @ [Run [''cargo'', ''--version''] None (Exited 0)])
             [''cargo'', ''new'', project_type_flag p, project_name p] None = Exited 0)
   \<and> (run_outcome E (log w) [''cargo'', ''--version''] None = Exited 0
       \<and> run_outcome E (log w @ [Run [''cargo'', ''--version''] None (Exited 0)])
             [''cargo'', ''new'', project_type_flag p, project_name p] None = Exited 0 \<longrightarrow>
        create_project E p w =
          add_dependencies E (p\<lparr>project_path := Some (project_name p)\<rparr>)
            (w\<lparr>log := log w @ [Run [''cargo'', ''--version''] None (Exited 0),
               Run [''cargo'', ''new'', project_type_flag p, project_name p] None (Exited 0)]\<rparr>))"
proof (intro conjI impI)
  let ?new = "[''cargo'', ''new'', project_type_flag p, project_name p]"
  let ?msg = "''Error creating new Rust '' @ project_type p @ '' project: '' @ exc_str E (CalledProcessError c ?new)"
  show "sublist (project_type p) ?msg"
    by (rule sublist_appendI [of _ "''Error creating new Rust ''" "'' project: '' @ exc_str E (CalledProcessError c ?new)"])
  have "sublist (exc_str E (CalledProcessError c ?new))
          ((''Error creating new Rust '' @ project_type p @ '' project: '') @ exc_str E (CalledProcessError c ?new) @ [])"
    by (rule sublist_appendI)
  then show "sublist (exc_str E (CalledProcessError c ?new)) ?msg" by simp
next
  assume a: "run_outcome E (log w) [''cargo'', ''--version''] None = Exited 0
    \<and> run_outcome E (log w @ [Run [''cargo'', ''--version''] None (Exited 0)])
          [''cargo'', ''new'', project_type_flag p, project_name p] None = Exited c \<and> c \<noteq> 0"
  then show "create_project E p w =
        (None, p,
         w\<lparr>log := log w @ [Run [''cargo'', ''--version''] None (Exited 0),
            Run [''cargo'', ''new'', project_type_flag p, project_name p] None (Exited c),
            Print (''Error creating new Rust '' @ project_type p @ '' project: '' @
              exc_str E (CalledProcessError c [''cargo'', ''new'', project_type_flag p, project_name p]))]\<rparr>)"
    by (simp add: create_project_eq)
  from a show "project_path (fst (snd (create_project E p w))) = project_path p"
    by (simp add: create_project_eq)
  from a show "\<not> list_ex is_add (emitted w (snd (snd (create_project E p w))))"
    by (simp add: create_project_eq)
next
  assume a: "list_ex is_add (emitted w (snd (snd (create_project E p w))))"
  show "run_outcome E (log w) [''cargo'', ''--version''] None = Exited 0"
    using a by (simp add: create_project_eq split: proc_outcome.splits if_splits)
  show "run_outcome E (log w @ [Run [''cargo'', ''--version''] None (Exited 0)])
             [''cargo'', ''new'', project_type_flag p, project_name p] None = Exited 0"
    using a by (simp add: create_project_eq split: proc_outcome.splits if_splits)
next
  assume "run_outcome E (log w) [''cargo'', ''--version''] None = Exited 0
       \<and> run_outcome E (log w @ [Run [''cargo'', ''--version''] None (Exited 0)])
             [''cargo'', ''new'', project_type_flag p, project_name p] None = Exited 0"
  then show "create_project E p w =
          add_dependencies E (p\<lparr>project_path := Some (project_name p)\<rparr>)
            (w\<lparr>log := log w @ [Run [''cargo'', ''--version''] None (Exited 0),
               Run [''cargo'', ''new'', project_type_flag p, project_name p] None (Exited 0)]\<rparr>)"
    by (simp add: create_project_eq)
qed

theorem create_project_new_fails_witness:
  "create_project env_new_fails (init ''demo'' ''lib'' (Some [''serde''])) w0 =
     (None, init ''demo'' ''lib'' (Some [''serde'']),
      w0\<lparr>log := [Run [''cargo'', ''--version''] None (Exited 0),
            Run [''cargo'', ''new'', ''--lib'', ''demo''] None (Exited 101),
            Print ''Error creating new Rust lib project: non-zero exit status'']\<rparr>)
   \<and> project_path (fst (snd (create_project env_new_fails (init ''demo'' ''lib'' (Some [''serde''])) w0))) = None
   \<and> list_ex is_add (emitted w0 (snd (snd (create_project env_ok (init ''demo'' ''lib'' (Some [''serde''])) w0))))
   \<and> create_project env_ok (init ''demo'' ''lib'' (Some [''serde''])) w0 =
       add_dependencies env_ok ((init ''demo'' ''lib'' (Some [''serde'']))\<lparr>project_path := Some ''demo''\<rparr>)
            (w0\<lparr>log := [Run [''cargo'', ''--version''] None (Exited 0),
               Run [''cargo'', ''new'', ''--lib'', ''demo''] None (Exited 0)]\<rparr>)"
  using create_project_new_fails [of env_new_fails w0 "init ''demo'' ''lib'' (Some [''serde''])" 101]
        create_project_new_fails [of env_ok w0 "init ''demo'' ''lib'' (Some [''serde''])" 101]
  by (simp add: env_new_fails_def env_ok_def env_with_def w0_def init_def project_type_flag_def
        add_dependencies_def subprocess_run_eq emitted_def)

subsection \<open>The preconditions of build_and_run\<close>

text \<open>
  C7: \<^verbatim>\<open>build_and_run\<close> needs the project created and the toolchain available. Without
  a project path it prints its diagnostic and returns; with a path but no cargo on the
  search path the probe prints its diagnostic and the method returns; in both cases
  \<^verbatim>\<open>cargo run\<close> is not invoked. When both hold, \<^verbatim>\<open>cargo run\<close> is invoked right after the
  probe, with the project path as working directory; and every command of the method
  other than the probe is that \<^verbatim>\<open>cargo run\<close>, in the project path, after a probe that
  succeeded.
\<close>

theorem build_and_run_preconditions:
  "(project_path p = None \<longrightarrow>
      build_and_run E p w = (None, p, w\<lparr>log := log w @ [Print ''Error: Rust project not created.'']\<rparr>))
   \<and> (project_path p = Some d \<and> run_outcome E (log w) [''cargo'', ''--version''] None = NotFound \<longrightarrow>
      build_and_run E p w =
        (None, p, w\<lparr>log := log w @ [Run [''cargo'', ''--version''] None NotFound,
           Print ''Error: Cargo is not installed. Please install Rust and Cargo.'']\<rparr>))
   \<and> (project_path p = Some d \<and> run_outcome E (log w) [''cargo'', ''--version''] None = Exited 0 \<longrightarrow>
      take 2 (emitted w (snd (snd (build_and_run E p w)))) =
        [Run [''cargo'', ''--version''] None (Exited 0),
         Run [''cargo'', ''run''] (Some d)
           (run_outcome E (log w @ [Run [''cargo'', ''--version''] None (Exited 0)]) [''cargo'', ''run''] (Some d))])
   \<and> (\<forall>args cwd r. Run args cwd r \<in> set (emitted w (snd (snd (build_and_run E p w))))
          \<and> args \<noteq> [''cargo'', ''--version''] \<longrightarrow>
        args = [''cargo'', ''run''] \<and> cwd = project_path p \<and> project_path p \<noteq> None
        \<and> run_outcome E (log w) [''cargo'', ''--version''] None = Exited 0)"
  by (simp add: build_and_run_eq split: option.splits proc_outcome.splits) auto

subsection \<open>Dependencies: the first failure stops the loop\<close>

lemma add_events_Cons: "add_events cwd (x # xs) = Run [''cargo'', ''add'', x] cwd (Exited 0) # add_events cwd xs"
  by (simp add: add_events_def)

lemma add_events_Nil: "add_events cwd [] = []"
  by (simp add: add_events_def)

lemma add_loop_first_failure:
  assumes "\<forall>i < length pre. run_outcome E (log w @ add_events cwd (take i pre))
              [''cargo'', ''add'', pre ! i] cwd = Exited 0"
    and "run_outcome E (log w @ add_events cwd pre) [''cargo'', ''add'', d] cwd = Exited c"
    and "c \<noteq> 0"
  shows "add_loop E cwd (pre @ d # post) w =
     (Inl (CalledProcessError c [''cargo'', ''add'', d]),
      w\<lparr>log := log w @ add_events cwd pre @ [Run [''cargo'', ''add'', d] cwd (Exited c)]\<rparr>)"
  using assms
proof (induction pre arbitrary: w)
  case Nil
  then show ?case by (simp add: add_events_Nil subprocess_run_eq)
next
  case (Cons x xs)
  let ?w1 = "w\<lparr>log := log w @ [Run [''cargo'', ''add'', x] cwd (Exited 0)]\<rparr>"
  from Cons.prems(1) have "0 < length (x # xs) \<longrightarrow> run_outcome E (log w @ add_events cwd (take 0 (x # xs)))
              [''cargo'', ''add'', (x # xs) ! 0] cwd = Exited 0" by blast
  then have x: "run_outcome E (log w) [''cargo'', ''add'', x] cwd = Exited 0"
    by (simp add: add_events_Nil)
  have 1: "\<forall>i < length xs. run_outcome E (log ?w1 @ add_events cwd (take i xs))
              [''cargo'', ''add'', xs ! i] cwd = Exited 0"
  proof (intro allI impI)
    fix i assume "i < length xs"
    then have "Suc i < length (x # xs)" by simp
    with Cons.prems(1) have "run_outcome E (log w @ add_events cwd (take (Suc i) (x # xs)))
              [''cargo'', ''add'', (x # xs) ! Suc i] cwd = Exited 0" by blast
    then show "run_outcome E (log ?w1 @ add_events cwd (take i xs)) [''cargo'', ''add'', xs ! i] cwd = Exited 0"
      by (simp add: add_events_Cons)
  qed
  have 2: "run_outcome E (log ?w1 @ add_events cwd xs) [''cargo'', ''add'', d] cwd = Exited c"
    using Cons.prems(2) by (simp add: add_events_Cons)
  have "add_loop E cwd ((x # xs) @ d # post) w = add_loop E cwd (xs @ d # post) ?w1"
    using x by (simp add: subprocess_run_eq)
  also have "\<dots> = (Inl (CalledProcessError c [''cargo'', ''add'', d]),
      ?w1\<lparr>log := log ?w1 @ add_events cwd xs @ [Run [''cargo'', ''add'', d] cwd (Exited c)]\<rparr>)"
    by (rule Cons.IH [OF 1 2 Cons.prems(3)])
  finally show ?case by (simp add: add_events_Cons)
qed


text \<open>
  C3: \<^verbatim>\<open>_add_dependencies\<close> runs \<^verbatim>\<open>cargo add\<close> for the entries in list order. When
  the additions before an entry succeed and that entry's addition exits with a non-zero
  status, the log holds the successful additions in order, then the failed one, then the
  diagnostic, and nothing else: the later entries are never attempted, nothing is undone,
  and the method returns normally with the object unchanged.
\<close>

theorem add_dependencies_first_failure:
  assumes "dependencies p = pre @ d # post"
    and "\<forall>i < length pre. run_outcome E (log w @ add_events (project_path p) (take i pre))
              [''cargo'', ''add'', pre ! i] (project_path p) = Exited 0"
    and "run_outcome E (log w @ add_events (project_path p) pre) [''cargo'', ''add'', d] (project_path p) = Exited c"
    and "c \<noteq> 0"
  shows "add_dependencies E p w =
     (None, p,
      w\<lparr>log := log w @ map (\<lambda>x. Run [''cargo'', ''add'', x] (project_path p) (Exited 0)) pre @
          [Run [''cargo'', ''add'', d] (project_path p) (Exited c),
           Print (''Error adding dependency: '' @ exc_str E (CalledProcessError c [''cargo'', ''add'', d]))]\<rparr>)"
proof -
  have ne: "dependencies p \<noteq> []" using assms(1) by simp
  have l: "add_loop E (project_path p) (dependencies p) w =
     (Inl (CalledProcessError c [''cargo'', ''add'', d]),
      w\<lparr>log := log w @ add_events (project_path p) pre @ [Run [''cargo'', ''add'', d] (project_path p) (Exited c)]\<rparr>)"
    unfolding assms(1) by (rule add_loop_first_failure [OF assms(2-4)])
  show ?thesis
    unfolding add_dependencies_def using ne by (simp add: l print_def add_events_def)
qed

theorem add_dependencies_first_failure_witness:
  "add_dependencies env_ok
      ((init ''demo'' ''lib'' (Some [''serde'', ''bad'', ''rand'']))\<lparr>project_path := Some ''demo''\<rparr>) w0 =
     (None, (init ''demo'' ''lib'' (Some [''serde'', ''bad'', ''rand'']))\<lparr>project_path := Some ''demo''\<rparr>,
      w0\<lparr>log := [Run [''cargo'', ''add'', ''serde''] (Some ''demo'') (Exited 0),
           Run [''cargo'', ''add'', ''bad''] (Some ''demo'') (Exited 101),
           Print ''Error adding dependency: non-zero exit status'']\<rparr>)"
proof -
  let ?p = "(init ''demo'' ''lib'' (Some [''serde'', ''bad'', ''rand'']))\<lparr>project_path := Some ''demo''\<rparr>"
  have h1: "dependencies ?p = [''serde''] @ ''bad'' # [''rand'']"
    by (simp add: init_def)
  have h2: "\<forall>i < length [''serde'']. run_outcome env_ok (log w0 @ add_events (project_path ?p) (take i [''serde'']))
              [''cargo'', ''add'', [''serde''] ! i] (project_path ?p) = Exited 0"
    by (simp add: env_ok_def env_with_def)
  have h3: "run_outcome env_ok (log w0 @ add_events (project_path ?p) [''serde''])
              [''cargo'', ''add'', ''bad''] (project_path ?p) = Exited 101"
    by (simp add: env_ok_def env_with_def)
  have h4: "(101::int) \<noteq> 0" by simp
  have e: "exc_str env_ok (CalledProcessError 101 [''cargo'', ''add'', ''bad'']) = ''non-zero exit status''"
    by (simp add: env_ok_def env_with_def)
  have pp: "project_path ?p = Some ''demo''" by simp
  have l0: "log w0 = []" by (simp add: w0_def)
  show ?thesis
    using add_dependencies_first_failure [OF h1 h2 h3 h4]
    unfolding e pp l0 by simp
qed

end
